theory Spec2Isabelle
  imports Complex_Main
begin

section \<open>Errors\<close>

text \<open>
  Every way the modelled operations fail is a value of one datatype. \<open>TypeError\<close> and
  \<open>AttributeError\<close> are the Python run-time errors of the source lines themselves; the
  others are the errors the specification names for the process compiler.
\<close>

datatype error =
    TypeError
  | AttributeError
  | RegistryMismatchError
  | UnknownParameterError
  | NumericDomainError

section \<open>Streams\<close>

text \<open>
  A stream exposes a mass flow per component ID (\<open>stream.imass[ID]\<close>, in kg/hr). Numbers
  are modelled as exact reals, so the Python floats' rounding is not part of the model.
  \<open>WasteStream.empty()\<close> sets every flow to zero, and \<open>mix_from\<close> adds the flows of the
  streams it is given. Every ID is taken to be a component of the registry in use; the
  stream class, which is not among the sources, refuses any other.
\<close>

type_synonym masses = "string \<Rightarrow> real"

definition empty_masses :: masses where
  "empty_masses = (\<lambda>c. 0)"

definition mix_from :: "masses list \<Rightarrow> masses" where
  "mix_from streams = (\<lambda>c. sum_list (map (\<lambda>s. s c) streams))"


section \<open>ElectroChemCell._run\<close>

text \<open>
  \<^verbatim>\<open>
  for chemical, ratio in self.recovery.items():
      recovered.imass[chemical] = mixture.imass[chemical]*ratio
      left.imass[chemical] = left.imass[chemical]-mixture.imass[chemical]*ratio
  \<close>
  The loop over \<open>self.removal.items()\<close> has the same body with \<open>removed\<close> in place of
  \<open>recovered\<close>, so one function models both. A dict is the list of its items in
  iteration order; its keys are distinct.
\<close>

fun transfer :: "(string \<times> real) list \<Rightarrow> masses \<Rightarrow> masses \<times> masses \<Rightarrow> masses \<times> masses" where
  "transfer [] mixture (out, left) = (out, left)"
| "transfer ((chemical, ratio) # items) mixture (out, left) =
     transfer items mixture
       (out(chemical := mixture chemical * ratio),
        left(chemical := left chemical - mixture chemical * ratio))"

text \<open>
  \<open>_run\<close> reads the two inlets and writes the three outlets \<open>(recovered, removed, left)\<close>.
  The outlets are state: \<open>recovered\<close> and \<open>removed\<close> are only written at the keys of
  the two dicts and keep what they held elsewhere, \<open>left\<close> is overwritten by the copy of
  the mixture.
\<close>

definition ECC_run ::
  "(string \<times> real) list \<Rightarrow> (string \<times> real) list \<Rightarrow> masses \<times> masses \<Rightarrow>
   masses \<times> masses \<times> masses \<Rightarrow> masses \<times> masses \<times> masses" where
  "ECC_run recovery removal ins outs =
     (case ins of (influent, cleaner) \<Rightarrow>
      case outs of (recovered, removed, left) \<Rightarrow>
        let mixture = mix_from [influent, cleaner];
            left = mixture;
            (recovered, left) = transfer recovery mixture (recovered, left);
            (removed, left) = transfer removal mixture (removed, left)
        in (recovered, removed, left))"

section \<open>AnaerobicBaffledReactor._run\<close>

text \<open>
  A \<open>WasteStream\<close> also carries the slot \<open>_COD\<close>, which is \<open>None\<close> unless a COD was given
  for the stream, and a phase. The volumetric flow \<open>F_vol\<close>, the \<open>COD\<close> property and the
  total nitrogen \<open>TN\<close> of the inlet are computed by the stream class, which is not among
  the sources; their values at the inlet are inputs of the model.
\<close>

record waste_stream =
  COD_slot :: "real option"
  phase :: string
  imass :: masses

record measures =
  F_vol :: real
  COD :: real
  TN :: real

record abr =
  COD_removal :: real
  N_removal :: real
  MCF_decay :: real
  max_CH4_emission :: real
  N_max_decay :: real
  N2O_EF_decay :: real
  degraded_components :: "string list"
  if_capture_biogas :: bool
  if_N2O_emission :: bool

definition empty :: "waste_stream \<Rightarrow> waste_stream" where
  "empty s = s\<lparr>imass := empty_masses\<rparr>"

text \<open>The assignment \<open>stream.imass[ID] = value\<close>.\<close>

definition set_imass :: "waste_stream \<Rightarrow> string \<Rightarrow> real \<Rightarrow> waste_stream" where
  "set_imass s ID v = s\<lparr>imass := (\<lambda>i. if i = ID then v else imass s i)\<rparr>"

text \<open>Python's \<open>waste._COD or waste.COD\<close>: the slot unless it is \<open>None\<close> or zero.\<close>

definition COD_or :: "real option \<Rightarrow> real \<Rightarrow> real" where
  "COD_or slot prop = (case slot of None \<Rightarrow> prop | Some c \<Rightarrow> if c = 0 then prop else c)"

text \<open>
  \<open>_run\<close> of the reactor. \<open>allocate_N_removal\<close> is a helper of the \<open>Decay\<close> mix-in, which
  is not among the sources: it is a parameter. \<open>treated._COD *= (1-self.COD_removal)\<close>
  multiplies the slot copied from the inlet in place, which raises \<open>TypeError\<close> when the
  slot is \<open>None\<close>.
\<close>

definition ABR_run ::
  "abr \<Rightarrow> (real \<Rightarrow> real \<Rightarrow> real \<times> real) \<Rightarrow> measures \<Rightarrow> waste_stream \<Rightarrow>
   waste_stream \<times> waste_stream \<times> waste_stream \<times> waste_stream \<Rightarrow>
   error + (waste_stream \<times> waste_stream \<times> waste_stream \<times> waste_stream)" where
  "ABR_run self allocate_N_removal ms waste outs =
     (case outs of (treated, biogas, CH4, N2O) \<Rightarrow>
        let treated = waste;
            biogas = biogas\<lparr>phase := ''g''\<rparr>;
            CH4 = CH4\<lparr>phase := ''g''\<rparr>;
            N2O = N2O\<lparr>phase := ''g''\<rparr>;
            COD' = COD_or (COD_slot waste) (COD ms);
            COD_deg = COD' * F_vol ms / 1000 * COD_removal self
        in case COD_slot treated of
             None \<Rightarrow> Inl TypeError
           | Some c \<Rightarrow>
               let treated = treated\<lparr>COD_slot := Some (c * (1 - COD_removal self))\<rparr>;
                   treated = treated\<lparr>imass := (\<lambda>i. if i \<in> set (degraded_components self)
                                then imass treated i * (1 - COD_removal self)
                                else imass treated i)\<rparr>;
                   CH4_prcd = COD_deg * MCF_decay self * max_CH4_emission self;
                   (biogas, CH4) =
                     (if if_capture_biogas self
                      then (set_imass biogas ''CH4'' CH4_prcd, empty CH4)
                      else (empty biogas, set_imass CH4 ''CH4'' CH4_prcd));
                   N_tot = TN ms / 1000 * F_vol ms;
                   N_loss_tot = N_tot * N_removal self;
                   (NH3_rmd, NonNH3_rmd) = allocate_N_removal N_loss_tot (imass waste ''NH3'');
                   treated = set_imass treated ''NH3'' (imass waste ''NH3'' - NH3_rmd);
                   treated = set_imass treated ''NonNH3'' (imass waste ''NonNH3'' - NonNH3_rmd);
                   N2O = (if if_N2O_emission self
                          then set_imass N2O ''N2O''
                                 (N_loss_tot * N_max_decay self * N2O_EF_decay self * 44 / 28)
                          else empty N2O)
               in Inr (treated, biogas, CH4, N2O))"

section \<open>Rate laws\<close>

text \<open>
  A rate equation is written in the sources as a string over component concentrations
  and parameter names, with \<open>+\<close>, \<open>-\<close>, \<open>*\<close>, \<open>/\<close> and parentheses. Its syntax tree:
\<close>

datatype expr =
    Num real
  | Sym string
  | Add expr expr
  | Sub expr expr
  | Mul expr expr
  | Div expr expr

text \<open>
  \<open>*\<close> and \<open>/\<close> have the same precedence and associate to the left, so a product
  \<open>a * b / c * d\<close> is the chain \<open>((a * b) / c) * d\<close>.
\<close>

datatype binop = Times | Over

fun apply_binop :: "expr \<Rightarrow> binop \<times> expr \<Rightarrow> expr" where
  "apply_binop a (Times, b) = Mul a b"
| "apply_binop a (Over, b) = Div a b"

definition chain :: "expr \<Rightarrow> (binop \<times> expr) list \<Rightarrow> expr" where
  "chain a ops = foldl apply_binop a ops"



text \<open>
  An environment from a list of values; a name that is not listed has the value 0.
\<close>

definition env_of :: "(string \<times> real) list \<Rightarrow> string \<Rightarrow> real" where
  "env_of values s = (case map_of values s of None \<Rightarrow> 0 | Some v \<Rightarrow> v)"




section \<open>Components, templates and processes\<close>

text \<open>
  A component of the registry, with the attribute the constructors write. The registry
  (\<open>Components\<close>) is the list of its components; the order is the column order of the
  stoichiometry matrix.
\<close>

record component =
  cid :: string
  i_mass :: real

type_synonym components = "component list"

text \<open>
  \<open>cmps.X_I.i_mass = fr_SS_COD\<close>: the attribute access \<open>cmps.X_I\<close> raises
  \<open>AttributeError\<close> when the registry has no component of that ID.
\<close>

definition set_i_mass :: "components \<Rightarrow> string \<Rightarrow> real \<Rightarrow> error + components" where
  "set_i_mass cmps ID v =
     (if ID \<in> set (map cid cmps)
      then Inr (map (\<lambda>c. if cid c = ID then c\<lparr>i_mass := v\<rparr> else c) cmps)
      else Inl AttributeError)"

text \<open>
  A reaction template as the sources write it: the arguments of \<open>Process(...)\<close>, or a row
  of the template file.
\<close>

record reaction_template =
  t_ID :: string
  t_reaction :: string
  t_ref_component :: string
  t_rate_equation :: string
  t_parameters :: "string list"
  t_conserved_for :: "string list"

text \<open>
  A built process: its stoichiometric coefficient per component ID (zero for most), the
  registry it was built against, its rate law and the parameters it names.
\<close>

record process =
  pid :: string
  p_components :: components
  stoichiometry :: "string \<Rightarrow> real"
  rate_equation :: expr
  parameters :: "string list"

datatype row = Template reaction_template | Built process

text \<open>
  The collection before \<open>compile()\<close>: its rows in order, the registry, and the global
  parameter names it was given.
\<close>

record processes =
  ps_rows :: "row list"
  ps_components :: components
  ps_parameters :: "string list"

text \<open>
  The compiled collection: its processes in row order, the dense stoichiometry matrix
  (one row per process, one column per component of the registry, in registry order)
  and the parameter table. A parameter has no value until one is set.
\<close>

type_synonym param_table = "(string \<times> real option) list"

record compiled_processes =
  c_components :: components
  c_processes :: "process list"
  stoichio :: "real list list"
  c_parameters :: param_table

text \<open>
  What the sources call and do not contain: the default registry
  (\<open>settings.get_default_chemicals\<close>), \<open>refresh_constants\<close>, the reader of a template
  file, and the \<open>Process\<close> constructor, which parses a template and solves its unknown
  coefficients. They are parameters of the model.
\<close>

record qsdsan =
  load_components :: "components option \<Rightarrow> components"
  refresh_constants :: "components \<Rightarrow> components"
  read_file :: "string \<Rightarrow> string list \<Rightarrow> reaction_template list"
  Process :: "components \<Rightarrow> reaction_template \<Rightarrow> error + process"

text \<open>
  \<open>Processes.load_from_file(path, conserved_for, parameters, components, compile=False)\<close>:
  one template row per row of the file.
\<close>

definition load_from_file ::
  "qsdsan \<Rightarrow> string \<Rightarrow> string list \<Rightarrow> string list \<Rightarrow> components \<Rightarrow> processes" where
  "load_from_file qs path conserved_for params cmps =
     \<lparr>ps_rows = map Template (read_file qs path conserved_for),
      ps_components = cmps, ps_parameters = params\<rparr>"

text \<open>
  Modelled from the spec: \<open>extend\<close>, which is not among the sources, appends already-built
  Process rows to the collection.
\<close>

definition extend :: "processes \<Rightarrow> process list \<Rightarrow> processes" where
  "extend self ps = self\<lparr>ps_rows := ps_rows self @ map Built ps\<rparr>"

text \<open>
  Modelled from the spec: \<open>compile\<close>, which is not among the sources. A template row is
  built against the collection's registry, and compilation fails with the builder's error
  if its unknowns cannot be solved; an already-built row must reference the collection's
  registry, or compilation fails with \<open>RegistryMismatchError\<close>. The rows keep their
  order, the columns are in registry order, and the parameter table merges the global
  parameter names with those of the processes.
\<close>

fun build_rows :: "qsdsan \<Rightarrow> components \<Rightarrow> row list \<Rightarrow> error + process list" where
  "build_rows qs cmps [] = Inr []"
| "build_rows qs cmps (Template t # rows) =
     (case Process qs cmps t of Inl e \<Rightarrow> Inl e
      | Inr p \<Rightarrow> (case build_rows qs cmps rows of Inl e \<Rightarrow> Inl e | Inr ps \<Rightarrow> Inr (p # ps)))"
| "build_rows qs cmps (Built p # rows) =
     (if p_components p \<noteq> cmps then Inl RegistryMismatchError
      else (case build_rows qs cmps rows of Inl e \<Rightarrow> Inl e | Inr ps \<Rightarrow> Inr (p # ps)))"

definition dense_row :: "components \<Rightarrow> process \<Rightarrow> real list" where
  "dense_row cmps p = map (\<lambda>c. stoichiometry p (cid c)) cmps"

text \<open>The keys of a dict built from a list of names: each name once, at its first place.\<close>

definition fromkeys :: "string list \<Rightarrow> param_table" where
  "fromkeys names = map (\<lambda>n. (n, None)) (rev (remdups (rev names)))"

definition compile :: "qsdsan \<Rightarrow> processes \<Rightarrow> error + compiled_processes" where
  "compile qs self =
     (case build_rows qs (ps_components self) (ps_rows self) of
        Inl e \<Rightarrow> Inl e
      | Inr ps \<Rightarrow>
          Inr \<lparr>c_components = ps_components self,
               c_processes = ps,
               stoichio = map (dense_row (ps_components self)) ps,
               c_parameters = fromkeys (ps_parameters self @ concat (map parameters ps))\<rparr>)"

text \<open>
  Modelled from the spec: \<open>set_parameters(name=value, ...)\<close>, which is not among the
  sources. An unrecognized name is \<open>UnknownParameterError\<close> and leaves the table as it
  was; otherwise every named parameter takes its value. The result is the table after the
  call and the error raised, if any.
\<close>

fun assign :: "param_table \<Rightarrow> string \<times> real \<Rightarrow> param_table" where
  "assign tbl (name, v) = map (\<lambda>(k, old). if k = name then (k, Some v) else (k, old)) tbl"

definition recognized :: "param_table \<Rightarrow> string \<Rightarrow> bool" where
  "recognized tbl name = (name \<in> set (map fst tbl))"

definition set_table :: "param_table \<Rightarrow> (string \<times> real) list \<Rightarrow> param_table \<times> error option" where
  "set_table tbl kwargs =
     (if list_all (\<lambda>(name, v). recognized tbl name) kwargs
      then (foldl assign tbl kwargs, None)
      else (tbl, Some UnknownParameterError))"

definition set_parameters ::
  "compiled_processes \<Rightarrow> (string \<times> real) list \<Rightarrow> compiled_processes \<times> error option" where
  "set_parameters self kwargs =
     (case set_table (c_parameters self) kwargs of
        (tbl, r) \<Rightarrow> (self\<lparr>c_parameters := tbl\<rparr>, r))"

section \<open>CANDO3.__new__\<close>

text \<open>The class attribute \<open>CANDO3._params\<close>.\<close>

definition CANDO3_params :: "string list" where
  "CANDO3_params =
     [''k_H'', ''k_X'', ''mu_H'', ''b_H'', ''nu_H1'', ''nu_H2'', ''nu_H3'', ''nu_H4'',
      ''k_OH1'', ''k_OH2'', ''k_OH3'', ''k_OH4'', ''k_OH5'', ''k_S1'', ''k_S2'',
      ''k_S3'', ''k_S4'', ''k_S5'', ''k_HB_NO3'', ''k_HB_NO2'', ''k_HB_NO'',
      ''k_HB_N2O'', ''k_HB_I1_NO'', ''k_HB_I2_NO'', ''k_HB_I3_NO'', ''Y_PHA'',
      ''Y_PAO'', ''Y_PO4'', ''f_XI'', ''Y_H'', ''f_1'', ''i_NBM'', ''i_NXS'',
      ''i_PBM'', ''i_NXI'', ''b_PAO'', ''b_PP'', ''b_PHA'', ''k_PP'', ''q_PHA'',
      ''k_A'', ''k_ALK'', ''q_PP'', ''k_PS'', ''k_MAX'', ''k_P'', ''k_IPP'', ''k_O2'',
      ''k_NO3'', ''k_PHA'', ''n_NO3'', ''mu_PAO'', ''k_NH4'']"

text \<open>The keywords of the call \<open>self.set_parameters(k_H=k_H, ...)\<close>, in order.\<close>

definition CANDO3_set_names :: "string list" where
  "CANDO3_set_names =
     [''k_H'', ''k_X'', ''mu_H'', ''b_H'', ''nu_H1'', ''nu_H2'', ''nu_H3'', ''nu_H4'',
      ''k_OH1'', ''k_OH2'', ''k_OH3'', ''k_OH4'', ''k_OH5'', ''k_S1'', ''k_S2'',
      ''k_S3'', ''k_S4'', ''k_S5'', ''k_HB_NO3'', ''k_HB_NO2'', ''k_HB_NO'',
      ''k_HB_N2O'', ''k_HB_I1_NO'', ''k_HB_I2_NO'', ''k_HB_I3_NO'', ''Y_PHA'',
      ''Y_PAO'', ''Y_PO4'', ''f_XI'', ''Y_H'', ''b_PAO'', ''b_PP'', ''b_PHA'',
      ''k_PP'', ''q_PHA'', ''k_A'', ''k_ALK'', ''q_PP'', ''k_PS'', ''k_MAX'', ''k_P'',
      ''k_IPP'', ''k_O2'', ''k_NO3'', ''k_PHA'', ''n_NO3'', ''mu_PAO'', ''k_NH4'',
      ''f_1'', ''i_NBM'', ''i_NXS'', ''i_PBM'', ''i_NXI'']"

text \<open>The default values of the keyword parameters of \<open>CANDO3.__new__\<close>.\<close>

definition CANDO3_defaults :: "string \<Rightarrow> real" where
  "CANDO3_defaults = env_of
     [(''k_H'', 1/8), (''k_X'', 1), (''mu_H'', 13/50), (''b_H'', 17/1000),
      (''nu_H1'', 7/25), (''nu_H2'', 4/25), (''nu_H3'', 7/20), (''nu_H4'', 7/20),
      (''k_OH1'', 1/10), (''k_OH2'', 1/10), (''k_OH3'', 1/10), (''k_OH4'', 1/10),
      (''k_OH5'', 1/10), (''k_S1'', 20), (''k_S2'', 20), (''k_S3'', 20), (''k_S4'', 20),
      (''k_S5'', 40), (''k_HB_NO3'', 1/5), (''k_HB_NO2'', 1/5), (''k_HB_NO'', 1/20),
      (''k_HB_N2O'', 1/20), (''k_HB_I1_NO'', 1/2), (''k_HB_I2_NO'', 3/10),
      (''k_HB_I3_NO'', 3/40), (''Y_PHA'', 5/8), (''Y_PAO'', 1/5), (''Y_PO4'', 3/10),
      (''f_XI'', 1/10), (''Y_H'', 5/8), (''i_NXI'', 1/50), (''f_1'', 1/10),
      (''i_NBM'', 7/100), (''i_NXS'', 1/50), (''i_PBM'', 7/100), (''b_PAO'', 1/5),
      (''b_PP'', 1/5), (''b_PHA'', 1/5), (''k_PP'', 1/100), (''q_PHA'', 3), (''k_A'', 4),
      (''k_ALK'', 1/10), (''q_PP'', 3/2), (''k_PS'', 1/5), (''k_MAX'', 17/50),
      (''k_P'', 1/100), (''k_IPP'', 1/50), (''k_O2'', 1/5), (''k_NO3'', 1/2),
      (''k_PHA'', 1/100), (''n_NO3'', 3/5), (''mu_PAO'', 1), (''k_NH4'', 1/20)]"

text \<open>The two hand-built processes, as the arguments of their \<open>Process(...)\<close> calls.\<close>

definition p12_template :: reaction_template where
  "p12_template =
     \<lparr>t_ID = ''anox_storage_PP'',
      t_reaction = ''S_PO4 + [Y_PHA]X_PHA + [?]S_NO3 -> X_PP + [?]S_N2 + [?]S_NH4 + [?]S_ALK'',
      t_ref_component = ''X_PP'',
      t_rate_equation = ''q_PP * S_O2/(k_O2+S_O2) * S_PO4/(k_PS+S_PO4) * S_ALK/(k_ALK+S_ALK) * (X_PHA/X_PAO)/(k_PHA+X_PHA/X_PAO) * (k_MAX-X_PP/X_PAO)/(k_IPP+k_MAX-X_PP/X_PAO) * X_PAO * n_NO3 * k_O2/S_O2 * S_NO3/(k_NO3+S_NO3)'',
      t_parameters = [''Y_PHA'', ''q_PP'', ''k_O2'', ''k_PS'', ''k_ALK'', ''k_PHA'', ''n_NO3'',
                      ''k_IPP'', ''k_NO3''],
      t_conserved_for = [''COD'', ''N'', ''P'', ''NOD'', ''charge'']\<rparr>"

definition p14_template :: reaction_template where
  "p14_template =
     \<lparr>t_ID = ''PAO_anox_growth'',
      t_reaction = ''[1/Y_PAO]X_PHA + [?]S_NO3 + [?]S_PO4 -> X_PAO + [?]S_N2 + [?]S_NH4  + [?]S_ALK'',
      t_ref_component = ''X_PAO'',
      t_rate_equation = ''mu_PAO * S_O2/(k_O2 + S_O2) * S_NH4/(k_NH4 + S_NH4) * S_PO4/(k_P + S_PO4) * S_ALK/(k_ALK + S_ALK) * (X_PHA/X_PAO)/(k_PHA + X_PHA/X_PAO) * X_PAO * n_NO3 * k_O2/S_O2 * S_NO3/(k_NO3 + S_NO3)'',
      t_parameters = [''Y_PAO'', ''mu_PAO'', ''k_O2'', ''k_NH4'', ''k_P'', ''k_ALK'', ''k_PHA'',
                      ''n_NO3'', ''k_NO3''],
      t_conserved_for = [''COD'', ''N'', ''P'', ''NOD'', ''charge'']\<rparr>"

text \<open>Python's \<open>if not path: path = _path\<close>: \<open>None\<close> and the empty string are both false.\<close>

definition path_or_default :: "string option \<Rightarrow> string \<Rightarrow> string" where
  "path_or_default path default_path =
     (case path of None \<Rightarrow> default_path | Some p \<Rightarrow> if p = [] then default_path else p)"

text \<open>The hand-built processes are appended only under the guard \<open>if path == _path\<close>.\<close>

definition CANDO3_extend ::
  "qsdsan \<Rightarrow> string \<Rightarrow> string \<Rightarrow> components \<Rightarrow> processes \<Rightarrow> error + processes" where
  "CANDO3_extend qs default_path path cmps self =
     (if path = default_path
      then (case Process qs cmps p12_template of Inl e \<Rightarrow> Inl e
            | Inr p12 \<Rightarrow> (case Process qs cmps p14_template of Inl e \<Rightarrow> Inl e
                | Inr p14 \<Rightarrow> Inr (extend self [p12, p14])))
      else Inr self)"

text \<open>
  \<open>CANDO3.__new__(cls, components, k_H=0.125, ..., fr_SS_COD=0.75, path=None, **kwargs)\<close>.
  \<open>default_path\<close> is the module constant \<open>_path\<close>; \<open>vals\<close> gives the value of each
  keyword parameter of the signature, \<open>kwargs\<close> the extra keywords.
\<close>

definition CANDO3_new ::
  "qsdsan \<Rightarrow> string \<Rightarrow> components option \<Rightarrow> (string \<Rightarrow> real) \<Rightarrow> real \<Rightarrow> string option \<Rightarrow>
   (string \<times> real) list \<Rightarrow> error + compiled_processes" where
  "CANDO3_new qs default_path components vals fr_SS_COD path kwargs =
     (let path = path_or_default path default_path;
          cmps = load_components qs components
      in case set_i_mass cmps ''X_I'' fr_SS_COD of Inl e \<Rightarrow> Inl e
         | Inr cmps \<Rightarrow>
             let cmps = refresh_constants qs cmps;
                 self = load_from_file qs path [''COD'', ''charge'', ''N'', ''P'']
                          CANDO3_params cmps
             in case CANDO3_extend qs default_path path cmps self of Inl e \<Rightarrow> Inl e
                | Inr self \<Rightarrow>
                    (case compile qs self of Inl e \<Rightarrow> Inl e
                     | Inr self \<Rightarrow>
                         (case set_parameters self
                                 (map (\<lambda>n. (n, vals n)) CANDO3_set_names @ kwargs) of
                            (self, None) \<Rightarrow> Inr self
                          | (self, Some e) \<Rightarrow> Inl e)))"

section \<open>Sharon.__new__\<close>

text \<open>The class attribute \<open>Sharon._params\<close>.\<close>

definition Sharon_params :: "string list" where
  "Sharon_params =
     [''Y_PO4'', ''Y_PHA'', ''Y_DPAO_NOx'', ''i_P_BM'', ''i_P_XI'', ''f_1'', ''q_PSA'',
      ''K_S_DPAO'', ''K_PP_DPAO'', ''q_PP'', ''K_PO4_PP'', ''K_PHA'', ''K_max_DPAO'',
      ''K_iPP_DPAO'', ''K_DPAO_PO4'', ''mu_DPAO1'', ''mu_DPAO2'', ''mu_DPAO3'',
      ''mu_DPAO4'', ''K_NO3'', ''K_NO2'', ''K_NO2'', ''K_NO'', ''K_N2O'', ''b_DPAO'',
      ''b_PP'', ''b_PHA'', ''K_NOx'']"

text \<open>The keywords of the call \<open>self.set_parameters(Y_1=Y_1, ...)\<close>, in order.\<close>

definition Sharon_set_names :: "string list" where
  "Sharon_set_names =
     [''Y_1'', ''Y_2'', ''Y_3'', ''Y_4'', ''Y_5'', ''n_amm'', ''n_nit'', ''n_het'',
      ''h_amm'', ''h_nit'', ''h_het'', ''o_amm'', ''o_nit'', ''o_het'', ''mu_amm_max'',
      ''mu_nit_max'', ''mu_dNO2_max'', ''mu_dNO3_max'', ''mu_met_max'', ''K_amm_nh3'',
      ''K_I_amm_HNO2'', ''K_amm_O2'', ''K_nit_HNO2'', ''K_nit_O2'', ''K_dNO2_NO2'',
      ''K_hetan_CH3OH'', ''K_I_O2'', ''K_dNO3_NO3'', ''K_hetox_CH3OH'', ''K_het_O2'']"

text \<open>The default values of the keyword parameters of \<open>Sharon.__new__\<close>.\<close>

definition Sharon_defaults :: "string \<Rightarrow> real" where
  "Sharon_defaults = env_of
     [(''Y_1'', 3/20), (''Y_2'', 41/1000), (''Y_3'', 123/1000), (''Y_4'', 131/1000),
      (''Y_5'', 223/1000), (''n_amm'', 57/500), (''n_nit'', 57/500), (''n_het'', 57/500),
      (''h_amm'', 73/1000), (''h_nit'', 73/1000), (''h_het'', 13/40), (''o_amm'', 13/40),
      (''o_nit'', 13/40), (''o_het'', 13/40), (''mu_amm_max'', 21/10),
      (''mu_nit_max'', 21/20), (''mu_dNO2_max'', 3/2), (''mu_dNO3_max'', 3/2),
      (''mu_met_max'', 5/2), (''K_amm_nh3'', 243/250), (''K_I_amm_HNO2'', 4431/500),
      (''K_amm_O2'', 294/625), (''K_nit_HNO2'', 893/1000), (''K_nit_O2'', 68/125),
      (''K_dNO2_NO2'', 391/1000), (''K_hetan_CH3OH'', 2084/125), (''K_I_O2'', 63/625),
      (''K_dNO3_NO3'', 31/50), (''K_hetox_CH3OH'', 8332/125), (''K_het_O2'', 1/25)]"

text \<open>\<open>Sharon.__new__\<close>; the file is loaded with \<open>compile=True\<close>.\<close>

definition Sharon_new ::
  "qsdsan \<Rightarrow> string \<Rightarrow> components option \<Rightarrow> (string \<Rightarrow> real) \<Rightarrow> string option \<Rightarrow>
   (string \<times> real) list \<Rightarrow> error + compiled_processes" where
  "Sharon_new qs default_path components vals path kwargs =
     (let path = path_or_default path default_path;
          cmps = load_components qs components;
          cmps = refresh_constants qs cmps
      in case compile qs (load_from_file qs path [''COD'', ''charge'', ''N''] Sharon_params cmps) of
           Inl e \<Rightarrow> Inl e
         | Inr self \<Rightarrow>
             (case set_parameters self (map (\<lambda>n. (n, vals n)) Sharon_set_names @ kwargs) of
                (self, None) \<Rightarrow> Inr self
              | (self, Some e) \<Rightarrow> Inl e))"

section \<open>Example inputs\<close>

text \<open>An influent of water with ammonia, and one of water alone (kg/hr).\<close>

definition influent_NH3 :: masses where
  "influent_NH3 = (\<lambda>c. if c = ''H2O'' then 1000 else if c = ''NH3'' then 50 else 0)"

definition influent_water :: masses where
  "influent_water = (\<lambda>c. if c = ''H2O'' then 1000 else 0)"

text \<open>
  A reactor with 80% COD removal whose biogas is captured, an inlet of water with a COD of
  1000 g/m3 set on the stream, flowing at 10 m3/hr, the same inlet with no COD set, and
  outlets that hold nothing yet.
\<close>

definition fresh_stream :: waste_stream where
  "fresh_stream = \<lparr>COD_slot = None, phase = ''l'', imass = empty_masses\<rparr>"

definition abr_example :: abr where
  "abr_example =
     \<lparr>COD_removal = 4/5, N_removal = 1/2, MCF_decay = 1/2, max_CH4_emission = 1/4,
      N_max_decay = 4/5, N2O_EF_decay = 1/2000, degraded_components = [''OtherSS''],
      if_capture_biogas = True, if_N2O_emission = False\<rparr>"

definition waste_example :: waste_stream where
  "waste_example =
     \<lparr>COD_slot = Some 1000, phase = ''l'',
      imass = (\<lambda>c. if c = ''H2O'' then 10000 else 0)\<rparr>"

definition waste_unset :: waste_stream where
  "waste_unset = waste_example\<lparr>COD_slot := None\<rparr>"

definition measures_example :: measures where
  "measures_example = \<lparr>F_vol = 10, COD = 1000, TN = 0\<rparr>"

text \<open>
  An allocator for the examples: the whole removal is taken from \<open>NonNH3\<close>. The
  examples have no nitrogen to remove.
\<close>

definition allocate_example :: "real \<Rightarrow> real \<Rightarrow> real \<times> real" where
  "allocate_example tot_red preferred_N = (0, tot_red)"









text \<open>
  A registry of three components, a \<open>Process\<close> constructor that always succeeds (it
  gives the reference component the coefficient 1), a template file of one row, and two
  hand-built processes on the registry.
\<close>

definition cmps_example :: components where
  "cmps_example = [\<lparr>cid = ''X_I'', i_mass = 1\<rparr>, \<lparr>cid = ''S_NO3'', i_mass = 1\<rparr>,
                   \<lparr>cid = ''S_N2'', i_mass = 1\<rparr>]"

definition Process_example :: "components \<Rightarrow> reaction_template \<Rightarrow> error + process" where
  "Process_example cmps t =
     Inr \<lparr>pid = t_ID t, p_components = cmps,
          stoichiometry = (\<lambda>c. if c = t_ref_component t then 1 else 0),
          rate_equation = Num 0, parameters = t_parameters t\<rparr>"

definition row_example :: reaction_template where
  "row_example =
     \<lparr>t_ID = ''denitrification'', t_reaction = ''S_NO3 -> [?]S_N2'',
      t_ref_component = ''S_NO3'', t_rate_equation = ''k_H*S_NO3'',
      t_parameters = [''k_H''], t_conserved_for = [''N'']\<rparr>"

definition qs_example :: qsdsan where
  "qs_example =
     \<lparr>load_components = (\<lambda>components. case components of None \<Rightarrow> cmps_example | Some cs \<Rightarrow> cs),
      refresh_constants = (\<lambda>cs. cs),
      read_file = (\<lambda>path conserved_for. [row_example]),
      Process = Process_example\<rparr>"

definition loaded_example :: processes where
  "loaded_example = load_from_file qs_example ''_CANDO3.tsv'' [''N''] [''k_H''] cmps_example"

definition p1_example :: process where
  "p1_example =
     \<lparr>pid = ''p1'', p_components = cmps_example,
      stoichiometry = (\<lambda>c. if c = ''S_NO3'' then - 1 else if c = ''S_N2'' then 1 else 0),
      rate_equation = Num 0, parameters = []\<rparr>"

definition p2_example :: process where
  "p2_example =
     \<lparr>pid = ''p2'', p_components = cmps_example,
      stoichiometry = (\<lambda>c. if c = ''X_I'' then 1/2 else 0),
      rate_equation = Num 0, parameters = [''b_H'']\<rparr>"

section \<open>Properties of ElectroChemCell._run\<close>

lemma transfer_out:
  "distinct (map fst items) \<Longrightarrow>
   fst (transfer items mixture (out, left)) c =
     (case map_of items c of None \<Rightarrow> out c | Some ratio \<Rightarrow> mixture c * ratio)"
proof (induction items arbitrary: out left)
  case Nil
  then show ?case by simp
next
  case (Cons a items)
  obtain k r where a: "a = (k, r)" by (cases a)
  from Cons.prems a have nk: "k \<notin> fst ` set items" and d: "distinct (map fst items)" by auto
  from nk have "map_of items k = None" by (simp add: map_of_eq_None_iff)
  with Cons.IH[OF d] a show ?case by (auto split: option.splits)
qed

lemma transfer_left:
  "distinct (map fst items) \<Longrightarrow>
   snd (transfer items mixture (out, left)) c =
     (case map_of items c of None \<Rightarrow> left c | Some ratio \<Rightarrow> left c - mixture c * ratio)"
proof (induction items arbitrary: out left)
  case Nil
  then show ?case by simp
next
  case (Cons a items)
  obtain k r where a: "a = (k, r)" by (cases a)
  from Cons.prems a have nk: "k \<notin> fst ` set items" and d: "distinct (map fst items)" by auto
  from nk have "map_of items k = None" by (simp add: map_of_eq_None_iff)
  with Cons.IH[OF d] a show ?case by (auto split: option.splits)
qed

lemma ECC_run_unfold:
  "ECC_run recovery removal (influent, cleaner) (recovered, removed, left) =
     (fst (transfer recovery (mix_from [influent, cleaner]) (recovered, mix_from [influent, cleaner])),
      fst (transfer removal (mix_from [influent, cleaner])
            (removed, snd (transfer recovery (mix_from [influent, cleaner])
                            (recovered, mix_from [influent, cleaner])))),
      snd (transfer removal (mix_from [influent, cleaner])
            (removed, snd (transfer recovery (mix_from [influent, cleaner])
                            (recovered, mix_from [influent, cleaner])))))"
  by (simp add: ECC_run_def Let_def split: prod.splits)

lemma mix_from_pair: "mix_from [a, b] c = a c + b c"
  by (simp add: mix_from_def)

lemma ECC_run_recovered:
  "distinct (map fst recovery) \<Longrightarrow>
   fst (ECC_run recovery removal (influent, cleaner) (recovered, removed, left)) c =
     (case map_of recovery c of None \<Rightarrow> recovered c
      | Some ratio \<Rightarrow> (influent c + cleaner c) * ratio)"
  by (simp add: ECC_run_unfold transfer_out mix_from_pair split: option.splits)

lemma ECC_run_removed:
  "distinct (map fst removal) \<Longrightarrow>
   fst (snd (ECC_run recovery removal (influent, cleaner) (recovered, removed, left))) c =
     (case map_of removal c of None \<Rightarrow> removed c
      | Some ratio \<Rightarrow> (influent c + cleaner c) * ratio)"
  by (simp add: ECC_run_unfold transfer_out mix_from_pair split: option.splits)

lemma ECC_run_left:
  "distinct (map fst recovery) \<Longrightarrow> distinct (map fst removal) \<Longrightarrow>
   snd (snd (ECC_run recovery removal (influent, cleaner) (recovered, removed, left))) c =
     (influent c + cleaner c)
     - (case map_of recovery c of None \<Rightarrow> 0 | Some ratio \<Rightarrow> (influent c + cleaner c) * ratio)
     - (case map_of removal c of None \<Rightarrow> 0 | Some ratio \<Rightarrow> (influent c + cleaner c) * ratio)"
  by (simp add: ECC_run_unfold transfer_left mix_from_pair split: option.splits)

text \<open>
  C9 (as amended). For distinct dict keys and every component \<open>c\<close> with
  \<open>recovery[c] = r1\<close> and \<open>removal[c] = r2\<close>: after \<open>_run\<close> the \<open>left\<close> outlet holds the
  mixed inlet mass of \<open>c\<close> times \<open>1 - r1 - r2\<close>, the \<open>recovered\<close> outlet the mixed mass
  times \<open>r1\<close> and the \<open>removed\<close> outlet the mixed mass times \<open>r2\<close>. Nothing checks
  \<open>r1 + r2 \<le> 1\<close>: when \<open>r1 + r2 > 1\<close> the \<open>left\<close> mass of \<open>c\<close> is negative if the mixed mass
  is positive, and zero if the mixed mass is zero. A component in neither dict passes to
  \<open>left\<close> with the mixed mass unchanged.
\<close>

theorem ECC_run_split:
  assumes "distinct (map fst recovery)" and "distinct (map fst removal)"
  shows "(map_of recovery c = Some r1 \<and> map_of removal c = Some r2 \<longrightarrow>
            snd (snd (ECC_run recovery removal (influent, cleaner) (recovered, removed, left))) c
              = (influent c + cleaner c) * (1 - r1 - r2)
          \<and> fst (ECC_run recovery removal (influent, cleaner) (recovered, removed, left)) c
              = (influent c + cleaner c) * r1
          \<and> fst (snd (ECC_run recovery removal (influent, cleaner) (recovered, removed, left))) c
              = (influent c + cleaner c) * r2
          \<and> (1 < r1 + r2 \<and> 0 < influent c + cleaner c \<longrightarrow>
               snd (snd (ECC_run recovery removal (influent, cleaner) (recovered, removed, left))) c < 0)
          \<and> (influent c + cleaner c = 0 \<longrightarrow>
               snd (snd (ECC_run recovery removal (influent, cleaner) (recovered, removed, left))) c = 0))
       \<and> (map_of recovery c = None \<and> map_of removal c = None \<longrightarrow>
            snd (snd (ECC_run recovery removal (influent, cleaner) (recovered, removed, left))) c
              = influent c + cleaner c)"
proof -
  have neg: "m * (1 - r1 - r2) < 0" if "1 < r1 + r2" "0 < m" for m :: real
  proof -
    from that have "1 - r1 - r2 < 0" by simp
    with that(2) show ?thesis by (simp add: mult_pos_neg)
  qed
  show ?thesis
    using neg[of "influent c + cleaner c"]
    by (auto simp: ECC_run_left[OF assms] ECC_run_recovered[OF assms(1)]
        ECC_run_removed[OF assms(2)] algebra_simps)
qed

text \<open>
  The theorem at \<open>recovery = removal = {'NH3': 0.6}\<close> and an influent with 50 kg/hr of
  ammonia: 30 kg/hr are recovered, and the \<open>left\<close> outlet holds \<open>-10\<close> kg/hr of ammonia and
  all of the water.
\<close>

theorem ECC_run_split_witness:
  "distinct (map fst [(''NH3'', 3/5::real)])
   \<and> map_of [(''NH3'', 3/5::real)] ''NH3'' = Some (3/5)
   \<and> (1::real) < 3/5 + 3/5 \<and> 0 < influent_NH3 ''NH3'' + empty_masses ''NH3''
   \<and> snd (snd (ECC_run [(''NH3'', 3/5)] [(''NH3'', 3/5)] (influent_NH3, empty_masses)
        (empty_masses, empty_masses, empty_masses))) ''NH3'' = 50 * (1 - 3/5 - 3/5)
   \<and> fst (ECC_run [(''NH3'', 3/5)] [(''NH3'', 3/5)] (influent_NH3, empty_masses)
        (empty_masses, empty_masses, empty_masses)) ''NH3'' = 30
   \<and> snd (snd (ECC_run [(''NH3'', 3/5)] [(''NH3'', 3/5)] (influent_NH3, empty_masses)
        (empty_masses, empty_masses, empty_masses))) ''NH3'' < 0
   \<and> map_of [(''NH3'', 3/5::real)] ''H2O'' = None
   \<and> snd (snd (ECC_run [(''NH3'', 3/5)] [(''NH3'', 3/5)] (influent_NH3, empty_masses)
        (empty_masses, empty_masses, empty_masses))) ''H2O'' = 1000"
  using ECC_run_split[of "[(''NH3'', 3/5)]" "[(''NH3'', 3/5)]" "''NH3''" "3/5" "3/5"
      influent_NH3 empty_masses empty_masses empty_masses empty_masses]
    ECC_run_split[of "[(''NH3'', 3/5)]" "[(''NH3'', 3/5)]" "''H2O''" "3/5" "3/5"
      influent_NH3 empty_masses empty_masses empty_masses empty_masses]
  by (simp add: influent_NH3_def empty_masses_def)

text \<open>
  The claim as stated fails where the inlets carry none of the component: with
  \<open>recovery = removal = {'NH3': 0.6}\<close> and an influent of water alone, the fractions add
  up to more than 1 and the \<open>left\<close> mass of ammonia is 0, not negative.
\<close>

theorem ECC_left_negative_counterexample:
  "(1::real) < 3/5 + 3/5
   \<and> map_of [(''NH3'', 3/5::real)] ''NH3'' = Some (3/5)
   \<and> \<not> snd (snd (ECC_run [(''NH3'', 3/5)] [(''NH3'', 3/5)] (influent_water, empty_masses)
        (empty_masses, empty_masses, empty_masses))) ''NH3'' < 0"
  by (simp add: ECC_run_def mix_from_def influent_water_def empty_masses_def)

section \<open>Properties of AnaerobicBaffledReactor._run\<close>

lemma ABR_run_None:
  "COD_slot waste = None \<Longrightarrow> ABR_run self alloc ms waste outs = Inl TypeError"
  by (cases outs) (simp add: ABR_run_def Let_def split: prod.splits)





text \<open>
  An inlet whose \<open>_COD\<close> slot is not set makes \<open>_run\<close> raise: the line above the
  in-place product falls back on the \<open>COD\<close> property, the product itself does not.
\<close>

theorem ABR_unset_COD_raises:
  "ABR_run abr_example allocate_example measures_example waste_unset
     (fresh_stream, fresh_stream, fresh_stream, fresh_stream) = Inl TypeError"
  by (simp add: ABR_run_None waste_unset_def)

section \<open>Mass balance of the units\<close>








section \<open>Properties of the rate laws\<close>






lemma chain_append: "chain a (xs @ ys) = chain (chain a xs) ys"
  by (simp add: chain_def)












section \<open>Properties of extend, compile and set_parameters\<close>

lemma build_rows_append:
  "build_rows qs cmps (xs @ ys) =
     (case build_rows qs cmps xs of Inl e \<Rightarrow> Inl e
      | Inr ps \<Rightarrow> (case build_rows qs cmps ys of Inl e \<Rightarrow> Inl e | Inr ps' \<Rightarrow> Inr (ps @ ps')))"
  by (induction qs cmps xs rule: build_rows.induct) (auto split: sum.splits)

lemma build_rows_length:
  "build_rows qs cmps rows = Inr ps \<Longrightarrow> length ps = length rows"
  by (induction qs cmps rows arbitrary: ps rule: build_rows.induct)
     (auto split: sum.splits if_splits)

lemma build_rows_Templates:
  "build_rows qs cmps (map Template ts) = Inr ps \<Longrightarrow> map Inr ps = map (Process qs cmps) ts"
  by (induction ts arbitrary: ps) (auto split: sum.splits)

lemma build_rows_Built:
  "build_rows qs cmps (map Built bs) =
     (if \<forall>p\<in>set bs. p_components p = cmps then Inr bs else Inl RegistryMismatchError)"
  by (induction bs) (auto split: sum.splits)

lemma build_rows_extend:
  "build_rows qs cmps (rows @ map Built bs) = Inr ps \<longleftrightarrow>
     (\<exists>ps0. build_rows qs cmps rows = Inr ps0 \<and> (\<forall>p\<in>set bs. p_components p = cmps)
            \<and> ps = ps0 @ bs)"
  by (auto simp: build_rows_append build_rows_Built split: sum.splits)

lemma compile_Inr:
  "compile qs self = Inr cp \<longleftrightarrow>
     (\<exists>ps. build_rows qs (ps_components self) (ps_rows self) = Inr ps
        \<and> cp = \<lparr>c_components = ps_components self, c_processes = ps,
                 stoichio = map (dense_row (ps_components self)) ps,
                 c_parameters = fromkeys (ps_parameters self @ concat (map parameters ps))\<rparr>)"
  by (auto simp: compile_def split: sum.splits)

lemma set_parameters_frame:
  "set_parameters self kwargs = (self', r) \<Longrightarrow>
   c_processes self' = c_processes self \<and> c_components self' = c_components self
   \<and> stoichio self' = stoichio self"
  by (auto simp: set_parameters_def split: prod.splits)

text \<open>
  C6. For a collection of \<open>n\<close> rows, if \<open>compile()\<close> after \<open>extend([p1, p2])\<close> yields a
  compiled collection, its stoichiometry matrix has exactly \<open>n + 2\<close> rows: the rows of
  the collection compiled without the two processes, followed by the coefficients of
  \<open>p1\<close> and of \<open>p2\<close>, unchanged, in the registry's column order. Compilation succeeds
  only if both processes reference the collection's registry.
\<close>

theorem extend_compile_rows:
  assumes "compile qs (extend self [p1, p2]) = Inr cp" and "length (ps_rows self) = n"
  shows "length (stoichio cp) = n + 2
     \<and> stoichio cp ! n = dense_row (ps_components self) p1
     \<and> stoichio cp ! (n + 1) = dense_row (ps_components self) p2
     \<and> (\<forall>j < length (ps_components self).
           stoichio cp ! n ! j = stoichiometry p1 (cid (ps_components self ! j))
         \<and> stoichio cp ! (n + 1) ! j = stoichiometry p2 (cid (ps_components self ! j)))
     \<and> (\<exists>cp0. compile qs self = Inr cp0 \<and> stoichio cp = stoichio cp0 @ [stoichio cp ! n, stoichio cp ! (n + 1)])
     \<and> p_components p1 = ps_components self \<and> p_components p2 = ps_components self"
proof -
  from assms(1) obtain ps where
    b: "build_rows qs (ps_components self) (ps_rows self @ map Built [p1, p2]) = Inr ps"
    and cp: "stoichio cp = map (dense_row (ps_components self)) ps"
    by (auto simp: compile_Inr extend_def)
  from b obtain ps0 where b0: "build_rows qs (ps_components self) (ps_rows self) = Inr ps0"
    and reg: "\<forall>p\<in>set [p1, p2]. p_components p = ps_components self"
    and ps: "ps = ps0 @ [p1, p2]"
    unfolding build_rows_extend by blast
  from build_rows_length[OF b0] assms(2) have l: "length ps0 = n" by simp
  have c0: "compile qs self = Inr \<lparr>c_components = ps_components self, c_processes = ps0,
                 stoichio = map (dense_row (ps_components self)) ps0,
                 c_parameters = fromkeys (ps_parameters self @ concat (map parameters ps0))\<rparr>"
    using b0 by (simp add: compile_def)
  have n0: "stoichio cp ! n = dense_row (ps_components self) p1"
    using l by (simp add: cp ps nth_append)
  have n1: "stoichio cp ! (n + 1) = dense_row (ps_components self) p2"
    using l by (simp add: cp ps nth_append)
  show ?thesis
    using l reg c0 n0 n1 by (simp add: cp ps dense_row_def)
qed

text \<open>
  The theorem at a collection of one template row on a registry of three components,
  extended by two hand-built processes.
\<close>

theorem extend_compile_rows_witness:
  "\<not> isl (compile qs_example (extend loaded_example [p1_example, p2_example]))
   \<and> length (ps_rows loaded_example) = 1
   \<and> length (stoichio (projr (compile qs_example (extend loaded_example [p1_example, p2_example])))) = 3
   \<and> stoichio (projr (compile qs_example (extend loaded_example [p1_example, p2_example]))) ! 1
        = [0, - 1, 1]
   \<and> stoichio (projr (compile qs_example (extend loaded_example [p1_example, p2_example]))) ! 2
        = [1/2, 0, 0]"
proof -
  have l: "length (ps_rows loaded_example) = 1"
    by (simp add: loaded_example_def load_from_file_def qs_example_def)
  have "\<exists>cp. compile qs_example (extend loaded_example [p1_example, p2_example]) = Inr cp"
    by (simp add: compile_def extend_def loaded_example_def load_from_file_def qs_example_def
        Process_example_def p1_example_def p2_example_def)
  then obtain cp where
    c: "compile qs_example (extend loaded_example [p1_example, p2_example]) = Inr cp" ..
  note T = extend_compile_rows[OF c l]
  from T have d1: "stoichio cp ! 1 = dense_row (ps_components loaded_example) p1_example"
    and d2: "stoichio cp ! (1 + 1) = dense_row (ps_components loaded_example) p2_example"
    and n: "length (stoichio cp) = 1 + 2"
    by blast+
  have r1: "stoichio cp ! 1 = [0, - 1, 1]"
    unfolding d1
    by (simp add: dense_row_def loaded_example_def load_from_file_def cmps_example_def
        p1_example_def)
  have "stoichio cp ! 2 = dense_row (ps_components loaded_example) p2_example"
    using d2 by (simp add: numeral_2_eq_2)
  then have r2: "stoichio cp ! 2 = [1/2, 0, 0]"
    by (simp add: dense_row_def loaded_example_def load_from_file_def cmps_example_def
        p2_example_def)
  show ?thesis using l n r1 r2 by (simp add: c)
qed

lemma recognized_fromkeys: "recognized (fromkeys names) n \<longleftrightarrow> n \<in> set names"
  by (auto simp: recognized_def fromkeys_def image_iff)

lemma set_table_unknown:
  "\<exists>n\<in>set (map fst kwargs). \<not> recognized tbl n \<Longrightarrow>
   set_table tbl kwargs = (tbl, Some UnknownParameterError)"
  by (auto simp: set_table_def list_all_iff)

lemma set_table_known:
  "\<forall>n\<in>set (map fst kwargs). recognized tbl n \<Longrightarrow>
   set_table tbl kwargs = (foldl assign tbl kwargs, None)"
  by (auto simp: set_table_def list_all_iff)

lemma Sharon_names_outside: "n \<in> set Sharon_set_names \<Longrightarrow> n \<notin> set Sharon_params"
  by (auto simp: Sharon_set_names_def Sharon_params_def)

lemma CANDO3_names_inside: "n \<in> set CANDO3_set_names \<Longrightarrow> n \<in> set CANDO3_params"
  by (auto simp: CANDO3_set_names_def CANDO3_params_def)

text \<open>
  C4. A call of \<open>set_parameters\<close> in which some name is not recognized raises
  \<open>UnknownParameterError\<close> and leaves the collection, and so its parameter table, as it
  was. Every name that \<open>Sharon.__new__\<close> passes to \<open>set_parameters\<close> is outside
  \<open>Sharon._params\<close>; so, when the file compiles and some passed name is declared by no
  process of the file either, \<open>Sharon.__new__\<close> raises \<open>UnknownParameterError\<close>.
\<close>

theorem set_parameters_unknown:
  "((\<exists>n\<in>set (map fst kwargs). \<not> recognized (c_parameters self) n) \<longrightarrow>
       set_parameters self kwargs = (self, Some UnknownParameterError))
   \<and> (\<forall>n\<in>set Sharon_set_names. n \<notin> set Sharon_params)
   \<and> (compile qs (load_from_file qs (path_or_default path default_path)
                     [''COD'', ''charge'', ''N''] Sharon_params
                     (refresh_constants qs (load_components qs components))) = Inr cp
        \<and> (\<exists>n\<in>set Sharon_set_names. \<forall>p\<in>set (c_processes cp). n \<notin> set (parameters p))
       \<longrightarrow> Sharon_new qs default_path components vals path kwargs' = Inl UnknownParameterError)"
proof (intro conjI impI ballI)
  assume "\<exists>n\<in>set (map fst kwargs). \<not> recognized (c_parameters self) n"
  then show "set_parameters self kwargs = (self, Some UnknownParameterError)"
    by (simp add: set_parameters_def set_table_unknown)
next
  fix n assume "n \<in> set Sharon_set_names"
  then show "n \<notin> set Sharon_params" by (rule Sharon_names_outside)
next
  assume a: "compile qs (load_from_file qs (path_or_default path default_path)
                     [''COD'', ''charge'', ''N''] Sharon_params
                     (refresh_constants qs (load_components qs components))) = Inr cp
        \<and> (\<exists>n\<in>set Sharon_set_names. \<forall>p\<in>set (c_processes cp). n \<notin> set (parameters p))"
  then obtain n where n: "n \<in> set Sharon_set_names"
    and np: "\<forall>p\<in>set (c_processes cp). n \<notin> set (parameters p)" by blast
  from a have tbl: "c_parameters cp
      = fromkeys (Sharon_params @ concat (map parameters (c_processes cp)))"
    by (auto simp: compile_Inr load_from_file_def)
  have "\<not> recognized (c_parameters cp) n"
    using Sharon_names_outside[OF n] np by (auto simp: tbl recognized_fromkeys)
  with n have "\<exists>m\<in>set (map fst (map (\<lambda>n. (n, vals n)) Sharon_set_names @ kwargs')).
      \<not> recognized (c_parameters cp) m"
    by (auto simp: image_iff)
  then have "set_table (c_parameters cp) (map (\<lambda>n. (n, vals n)) Sharon_set_names @ kwargs')
      = (c_parameters cp, Some UnknownParameterError)"
    by (rule set_table_unknown)
  with a show "Sharon_new qs default_path components vals path kwargs' = Inl UnknownParameterError"
    by (simp add: Sharon_new_def Let_def set_parameters_def)
qed

text \<open>
  The theorem at a table of the names of \<open>Sharon._params\<close> and a call that names
  \<open>Y_PO4\<close>, which is recognized, and \<open>Y_1\<close>, which is not; and at \<open>Sharon.__new__\<close> on
  the example file, whose row declares \<open>k_H\<close> only.
\<close>

theorem set_parameters_unknown_witness:
  "\<not> recognized (fromkeys Sharon_params) ''Y_1''
   \<and> set_parameters
        \<lparr>c_components = cmps_example, c_processes = [], stoichio = [],
         c_parameters = fromkeys Sharon_params\<rparr> [(''Y_PO4'', 3/10), (''Y_1'', 3/20)]
       = (\<lparr>c_components = cmps_example, c_processes = [], stoichio = [],
           c_parameters = fromkeys Sharon_params\<rparr>, Some UnknownParameterError)
   \<and> ''Y_1'' \<in> set Sharon_set_names \<and> ''Y_1'' \<notin> set Sharon_params
   \<and> Sharon_new qs_example ''_Sharon.tsv'' None Sharon_defaults None []
       = Inl UnknownParameterError"
proof -
  have y: "''Y_1'' \<in> set Sharon_set_names" by (simp add: Sharon_set_names_def)
  note T = set_parameters_unknown[of "[(''Y_PO4'', 3/10), (''Y_1'', 3/20)]"
      "\<lparr>c_components = cmps_example, c_processes = [], stoichio = [],
        c_parameters = fromkeys Sharon_params\<rparr>"
      qs_example None "''_Sharon.tsv''" None
      "projr (compile qs_example (load_from_file qs_example ''_Sharon.tsv''
                     [''COD'', ''charge'', ''N''] Sharon_params cmps_example))"
      Sharon_defaults "[]"]
  from T y have o: "''Y_1'' \<notin> set Sharon_params" by blast
  then have nr: "\<not> recognized (fromkeys Sharon_params) ''Y_1''"
    by (simp add: recognized_fromkeys)
  from T nr have sp: "set_parameters
        \<lparr>c_components = cmps_example, c_processes = [], stoichio = [],
         c_parameters = fromkeys Sharon_params\<rparr> [(''Y_PO4'', 3/10), (''Y_1'', 3/20)]
       = (\<lparr>c_components = cmps_example, c_processes = [], stoichio = [],
           c_parameters = fromkeys Sharon_params\<rparr>, Some UnknownParameterError)"
    by simp
  have c: "compile qs_example (load_from_file qs_example (path_or_default None ''_Sharon.tsv'')
                     [''COD'', ''charge'', ''N''] Sharon_params
                     (refresh_constants qs_example (load_components qs_example None)))
      = Inr (projr (compile qs_example (load_from_file qs_example ''_Sharon.tsv''
                     [''COD'', ''charge'', ''N''] Sharon_params cmps_example)))"
    by (simp add: compile_def load_from_file_def qs_example_def Process_example_def
        path_or_default_def)
  have np: "\<forall>p\<in>set (c_processes (projr (compile qs_example (load_from_file qs_example ''_Sharon.tsv''
                     [''COD'', ''charge'', ''N''] Sharon_params cmps_example)))).
             ''Y_1'' \<notin> set (parameters p)"
    by (simp add: compile_def load_from_file_def qs_example_def Process_example_def
        row_example_def)
  from T c y np have sh: "Sharon_new qs_example ''_Sharon.tsv'' None Sharon_defaults None []
       = Inl UnknownParameterError"
    by blast
  from nr sp y o sh show ?thesis by (intro conjI) assumption+
qed

section \<open>Properties of CANDO3.__new__\<close>

lemma CANDO3_extend_rows:
  "CANDO3_extend qs dp path cmps self = Inr ps0 \<Longrightarrow>
   ps_components ps0 = ps_components self \<and> ps_parameters ps0 = ps_parameters self
   \<and> (if path = dp
       then \<exists>p12 p14. Process qs cmps p12_template = Inr p12
              \<and> Process qs cmps p14_template = Inr p14
              \<and> ps_rows ps0 = ps_rows self @ map Built [p12, p14]
       else ps_rows ps0 = ps_rows self)"
  by (auto simp: CANDO3_extend_def extend_def split: if_splits sum.splits)

lemma CANDO3_new_Inr:
  assumes "CANDO3_new qs dp components vals fr path kwargs = Inr self"
  shows "\<exists>cmps1 ps0 cp.
     set_i_mass (load_components qs components) ''X_I'' fr = Inr cmps1
     \<and> CANDO3_extend qs dp (path_or_default path dp) (refresh_constants qs cmps1)
         (load_from_file qs (path_or_default path dp) [''COD'', ''charge'', ''N'', ''P'']
            CANDO3_params (refresh_constants qs cmps1)) = Inr ps0
     \<and> compile qs ps0 = Inr cp
     \<and> set_parameters cp (map (\<lambda>n. (n, vals n)) CANDO3_set_names @ kwargs) = (self, None)"
  using assms
  by (auto simp: CANDO3_new_def Let_def split: sum.splits prod.splits option.splits)

text \<open>
  C10. When \<open>CANDO3.__new__\<close> returns a collection, its processes are the rows of the
  template file, built in order, followed by the two hand-built processes
  \<open>anox_storage_PP\<close> and \<open>PAO_anox_growth\<close> if and only if the path (after
  \<open>if not path: path = _path\<close>) equals the default \<open>_path\<close>. For every other path the
  collection holds the rows of that file and nothing else.
\<close>

theorem CANDO3_new_rows:
  assumes "CANDO3_new qs default_path components vals fr_SS_COD path kwargs = Inr self"
  shows "length (c_processes self)
           = length (read_file qs (path_or_default path default_path)
                       [''COD'', ''charge'', ''N'', ''P''])
             + (if path_or_default path default_path = default_path then 2 else 0)
     \<and> map Inr (take (length (read_file qs (path_or_default path default_path)
                                 [''COD'', ''charge'', ''N'', ''P''])) (c_processes self))
           = map (Process qs (c_components self))
               (read_file qs (path_or_default path default_path)
                  [''COD'', ''charge'', ''N'', ''P''])
     \<and> (path_or_default path default_path = default_path \<longrightarrow>
           map Inr (drop (length (read_file qs default_path [''COD'', ''charge'', ''N'', ''P'']))
                      (c_processes self))
           = [Process qs (c_components self) p12_template,
              Process qs (c_components self) p14_template])
     \<and> (path_or_default path default_path \<noteq> default_path \<longrightarrow>
           map Inr (c_processes self)
           = map (Process qs (c_components self))
               (read_file qs (path_or_default path default_path)
                  [''COD'', ''charge'', ''N'', ''P'']))"
proof -
  let ?path = "path_or_default path default_path"
  let ?file = "read_file qs ?path [''COD'', ''charge'', ''N'', ''P'']"
  from CANDO3_new_Inr[OF assms] obtain cmps1 ps0 cp where
    ext: "CANDO3_extend qs default_path ?path (refresh_constants qs cmps1)
         (load_from_file qs ?path [''COD'', ''charge'', ''N'', ''P'']
            CANDO3_params (refresh_constants qs cmps1)) = Inr ps0"
    and comp: "compile qs ps0 = Inr cp"
    and setp: "set_parameters cp (map (\<lambda>n. (n, vals n)) CANDO3_set_names @ kwargs) = (self, None)"
    by blast
  let ?cmps = "refresh_constants qs cmps1"
  from set_parameters_frame[OF setp]
  have ps: "c_processes self = c_processes cp" and cs: "c_components self = c_components cp"
    by simp_all
  from CANDO3_extend_rows[OF ext]
  have pc: "ps_components ps0 = ?cmps"
    by (simp add: load_from_file_def)
  from comp have b: "build_rows qs ?cmps (ps_rows ps0) = Inr (c_processes cp)"
    and cc: "c_components cp = ?cmps"
    by (auto simp: compile_Inr pc)
  show ?thesis
  proof (cases "?path = default_path")
    case True
    with CANDO3_extend_rows[OF ext]
    obtain p12 p14 where p12: "Process qs ?cmps p12_template = Inr p12"
      and p14: "Process qs ?cmps p14_template = Inr p14"
      and r: "ps_rows ps0 = map Template ?file @ map Built [p12, p14]"
      by (auto simp: load_from_file_def)
    from b[unfolded r build_rows_extend] obtain loaded where
      l: "build_rows qs ?cmps (map Template ?file) = Inr loaded"
      and e: "c_processes cp = loaded @ [p12, p14]" by blast
    from build_rows_length[OF l] have ll: "length loaded = length ?file" by simp
    from build_rows_Templates[OF l] have lt: "map Inr loaded = map (Process qs ?cmps) ?file" .
    show ?thesis
      using True ll lt p12 p14 by (simp add: ps cs cc e)
  next
    case False
    with CANDO3_extend_rows[OF ext] have r: "ps_rows ps0 = map Template ?file"
      by (simp add: load_from_file_def)
    from b[unfolded r] have l: "build_rows qs ?cmps (map Template ?file) = Inr (c_processes cp)" .
    from build_rows_length[OF l] have ll: "length (c_processes cp) = length ?file" by simp
    from build_rows_Templates[OF l]
    have lt: "map Inr (c_processes cp) = map (Process qs ?cmps) ?file" .
    show ?thesis
      using False ll lt by (simp add: ps cs cc)
  qed
qed

lemma CANDO3_new_succeeds:
  assumes "set_i_mass (load_components qs components) ''X_I'' fr = Inr cmps'"
    and "CANDO3_extend qs dp (path_or_default path dp) (refresh_constants qs cmps')
           (load_from_file qs (path_or_default path dp) [''COD'', ''charge'', ''N'', ''P'']
              CANDO3_params (refresh_constants qs cmps')) = Inr ps'"
    and "compile qs ps' = Inr cp"
    and "\<forall>n\<in>set (map fst kwargs). recognized (c_parameters cp) n"
  shows "\<exists>self. CANDO3_new qs dp components vals fr path kwargs = Inr self"
proof -
  from CANDO3_extend_rows[OF assms(2)] have "ps_parameters ps' = CANDO3_params"
    by (simp add: load_from_file_def)
  with assms(3) have "\<forall>n\<in>set CANDO3_set_names. recognized (c_parameters cp) n"
    by (auto simp: compile_Inr recognized_fromkeys dest: CANDO3_names_inside)
  with assms(4)
  have "\<forall>n\<in>set (map fst (map (\<lambda>n. (n, vals n)) CANDO3_set_names @ kwargs)).
          recognized (c_parameters cp) n"
    by (auto simp: image_iff)
  from set_table_known[OF this] show ?thesis
    using assms(1,2,3) by (simp add: CANDO3_new_def Let_def set_parameters_def)
qed

text \<open>
  The theorem at the example file of one row: with no path given the collection has the
  row and the two hand-built processes, with the path \<open>other.tsv\<close> it has the row only.
\<close>

theorem CANDO3_new_rows_witness:
  "\<not> isl (CANDO3_new qs_example ''_CANDO3.tsv'' None CANDO3_defaults (3/4) None [])
   \<and> map pid (c_processes (projr
         (CANDO3_new qs_example ''_CANDO3.tsv'' None CANDO3_defaults (3/4) None [])))
       = [''denitrification'', ''anox_storage_PP'', ''PAO_anox_growth'']
   \<and> \<not> isl (CANDO3_new qs_example ''_CANDO3.tsv'' None CANDO3_defaults (3/4)
              (Some ''other.tsv'') [])
   \<and> map pid (c_processes (projr
         (CANDO3_new qs_example ''_CANDO3.tsv'' None CANDO3_defaults (3/4)
            (Some ''other.tsv'') [])))
       = [''denitrification'']"
proof -
  have f: "read_file qs_example p cf = [row_example]" for p cf
    by (simp add: qs_example_def)
  have P: "Process qs_example c t = Process_example c t" for c t
    by (simp add: qs_example_def)
  have s: "\<exists>self. CANDO3_new qs_example ''_CANDO3.tsv'' None CANDO3_defaults (3/4) path [] = Inr self"
    for path
  proof -
    let ?cmps = "[\<lparr>cid = ''X_I'', i_mass = 3/4\<rparr>, \<lparr>cid = ''S_NO3'', i_mass = 1\<rparr>,
                  \<lparr>cid = ''S_N2'', i_mass = 1\<rparr>]"
    let ?ext = "CANDO3_extend qs_example ''_CANDO3.tsv'' (path_or_default path ''_CANDO3.tsv'')
           (refresh_constants qs_example ?cmps)
           (load_from_file qs_example (path_or_default path ''_CANDO3.tsv'')
              [''COD'', ''charge'', ''N'', ''P''] CANDO3_params (refresh_constants qs_example ?cmps))"
    have a1: "set_i_mass (load_components qs_example None) ''X_I'' (3/4) = Inr ?cmps"
      by (simp add: qs_example_def cmps_example_def set_i_mass_def)
    have "\<not> isl ?ext"
      by (simp add: CANDO3_extend_def P Process_example_def)
    then have a2: "?ext = Inr (projr ?ext)" by simp
    have "\<not> isl (compile qs_example (projr ?ext))"
      by (simp add: CANDO3_extend_def P f Process_example_def compile_def extend_def
          load_from_file_def qs_example_def)
    then have a3: "compile qs_example (projr ?ext) = Inr (projr (compile qs_example (projr ?ext)))"
      by simp
    show ?thesis
      by (rule CANDO3_new_succeeds[OF a1 a2 a3]) simp
  qed
  from s[of None] obtain self1 where
    r1: "CANDO3_new qs_example ''_CANDO3.tsv'' None CANDO3_defaults (3/4) None [] = Inr self1" ..
  from s[of "Some ''other.tsv''"] obtain self2 where
    r2: "CANDO3_new qs_example ''_CANDO3.tsv'' None CANDO3_defaults (3/4) (Some ''other.tsv'') []
         = Inr self2" ..
  note T1 = CANDO3_new_rows[OF r1, unfolded f P]
  note T2 = CANDO3_new_rows[OF r2, unfolded f P]
  have d1: "path_or_default None ''_CANDO3.tsv'' = ''_CANDO3.tsv''"
    and d2: "path_or_default (Some ''other.tsv'') ''_CANDO3.tsv'' \<noteq> ''_CANDO3.tsv''"
    by (simp_all add: path_or_default_def)
  from T1 d1 have k1: "map Inr (take (length [row_example]) (c_processes self1))
        = map (Process_example (c_components self1)) [row_example]"
    and k2: "map Inr (drop (length [row_example]) (c_processes self1))
        = [Process_example (c_components self1) p12_template,
           Process_example (c_components self1) p14_template]"
    by blast+
  from k1 have t1: "map pid (take 1 (c_processes self1)) = [''denitrification'']"
    by (auto simp: Process_example_def row_example_def map_eq_Cons_conv)
  from k2 have t2: "map pid (drop 1 (c_processes self1)) = [''anox_storage_PP'', ''PAO_anox_growth'']"
    by (auto simp: Process_example_def p12_template_def p14_template_def map_eq_Cons_conv)
  have "map pid (c_processes self1)
      = map pid (take 1 (c_processes self1)) @ map pid (drop 1 (c_processes self1))"
    by (simp only: map_append[symmetric] append_take_drop_id)
  with t1 t2 have p1: "map pid (c_processes self1)
      = [''denitrification'', ''anox_storage_PP'', ''PAO_anox_growth'']" by simp
  from T2 d2 have k3: "map Inr (c_processes self2)
        = map (Process_example (c_components self2)) [row_example]"
    by blast
  then have p2: "map pid (c_processes self2) = [''denitrification'']"
    by (auto simp: Process_example_def row_example_def map_eq_Cons_conv)
  show ?thesis using p1 p2 by (simp add: r1 r2)
qed


end
